theory Spec2Isabelle
  imports Complex_Main "HOL-Library.Sublist"
begin

section \<open>Python values used by the request handlers of app.py\<close>

text \<open>
  A Python float is a finite number, an infinity or a NaN. The handlers only ever compare
  a float with the constants 0.5, 7.0 and 70.0, which binary floating point represents
  exactly, so a finite float is modelled by the real number it denotes. Every double is a
  real, so a statement about all \<open>Finite r\<close> covers all finite doubles.
\<close>

datatype pyfloat = Finite real | PosInf | NegInf | NaN

text \<open>The operators greater-than and less-than of Python floats: every comparison with a
  NaN is false.\<close>

fun float_gt :: "pyfloat \<Rightarrow> pyfloat \<Rightarrow> bool" where
  "float_gt NaN y = False"
| "float_gt x NaN = False"
| "float_gt (Finite a) (Finite b) = (b < a)"
| "float_gt (Finite a) NegInf = True"
| "float_gt (Finite a) PosInf = False"
| "float_gt PosInf PosInf = False"
| "float_gt PosInf y = True"
| "float_gt NegInf y = False"

definition float_lt :: "pyfloat \<Rightarrow> pyfloat \<Rightarrow> bool" where
  "float_lt x y = float_gt y x"

text \<open>
  Exceptions, by the classes the handlers of \<open>predict\<close> tell apart. \<open>JSONDecodeError\<close> is a
  subclass of \<open>ValueError\<close>; \<open>ValueError\<close> stands for every other \<open>ValueError\<close>, and
  \<open>Exception\<close> for every other exception class (\<open>AttributeError\<close>, \<open>TypeError\<close>,
  \<open>OverflowError\<close>, \<open>OSError\<close>, ...). The string is \<open>str(e)\<close>.
\<close>

datatype exn = JSONDecodeError string | ValueError string | Exception string

fun str_exn :: "exn \<Rightarrow> string" where
  "str_exn (JSONDecodeError m) = m"
| "str_exn (ValueError m) = m"
| "str_exn (Exception m) = m"

text \<open>What \<open>json.loads\<close> can return: \<open>None\<close>, a bool, an int, a float, a str, a list or a dict.\<close>

datatype json =
    JNull
  | JBool bool
  | JInt int
  | JFloat pyfloat
  | JStr string
  | JList "json list"
  | JDict "string \<Rightarrow> json option"

fun type_name :: "json \<Rightarrow> string" where
  "type_name JNull = ''NoneType''"
| "type_name (JBool b) = ''bool''"
| "type_name (JInt n) = ''int''"
| "type_name (JFloat x) = ''float''"
| "type_name (JStr s) = ''str''"
| "type_name (JList xs) = ''list''"
| "type_name (JDict d) = ''dict''"

text \<open>\<open>obj.get(key, default)\<close>: only a dict has the method; on any other value the attribute
  lookup raises \<open>AttributeError\<close>.\<close>

fun py_get :: "json \<Rightarrow> string \<Rightarrow> json \<Rightarrow> exn + json" where
  "py_get (JDict d) k dflt = Inr (case d k of None \<Rightarrow> dflt | Some v \<Rightarrow> v)"
| "py_get v k dflt =
     Inl (Exception ([CHR 0x27] @ type_name v @ [CHR 0x27] @ '' object has no attribute ''
                      @ [CHR 0x27] @ ''get'' @ [CHR 0x27]))"

text \<open>\<open>v != ''\<close> for a value that \<open>json.loads\<close> returned: false only for the empty str.\<close>

fun ne_empty_str :: "json \<Rightarrow> bool" where
  "ne_empty_str (JStr s) = (s \<noteq> [])"
| "ne_empty_str v = True"

text \<open>\<open>os.path.join\<close> of two components (POSIX).\<close>

definition path_join :: "string \<Rightarrow> string \<Rightarrow> string" where
  "path_join a b =
     (if b \<noteq> [] \<and> hd b = CHR ''/'' then b
      else if a = [] \<or> last a = CHR ''/'' then a @ b
      else a @ ''/'' @ b)"

section \<open>The request, the response and the server state\<close>

record 'img upload =
  filename :: string
  content :: 'img

text \<open>The two parts of the multipart form that \<open>predict\<close> reads: \<open>request.files['image']\<close>
  and \<open>request.form.get('biomedicalData')\<close>, each absent (\<open>None\<close>) or present.\<close>

record 'img request =
  files_image :: "'img upload option"
  form_biomedicalData :: "string option"

record prediction_result =
  image_prediction :: "string option"
  biomedical_prediction :: "string option"
  combined_prediction :: string
  image_path :: "string option"

text \<open>A response is the JSON body of a success (status 200), or a status with the
  \<open>error\<close> field of the body, or \<open>Unhandled e\<close>: the exception \<open>e\<close> left \<open>predict\<close>, and
  Flask answers status 500 with a page of its own, which has no \<open>error\<close> field.\<close>

datatype response = Success prediction_result | Failure nat string | Unhandled exn

text \<open>The calls \<open>predict\<close> makes to its collaborators, in the order it makes them.\<close>

datatype call = Save string | Preprocess string | Predict | JsonLoads string

record 'img state =
  files :: "string \<Rightarrow> 'img option"
  calls :: "call list"

text \<open>
  What the handlers take from outside app.py. \<open>model\<close> is the global of that name:
  \<open>None\<close> when \<open>load_model\<close> raised at startup, otherwise the function
  \<open>model.predict(img_array)[0][0]\<close>. \<open>save\<close> says whether writing the upload to a path
  raises. \<open>preprocess_image\<close> (lines 27 to 35) decodes the file at a path into a float32
  tensor; no property here is about the tensor, so its outcome on a given file system is
  taken as given. \<open>json_loads\<close>, \<open>float\<close> and \<open>str\<close> are the library functions of those
  names, \<open>str\<close> on the values that \<open>json.loads\<close> returns. \<open>stdout\<close> is the stream that
  \<open>print\<close> writes to: \<open>stdout env t\<close> is \<open>None\<close> when the stream encodes the text \<open>t\<close>, and
  otherwise the message of the \<open>UnicodeEncodeError\<close> that the write raises.
\<close>

record ('img, 'arr) env =
  model :: "('arr \<Rightarrow> exn + pyfloat) option"
  secure_filename :: "string \<Rightarrow> string"
  save :: "string \<Rightarrow> 'img \<Rightarrow> exn option"
  preprocess_image :: "(string \<Rightarrow> 'img option) \<Rightarrow> string \<Rightarrow> exn + 'arr"
  json_loads :: "string \<Rightarrow> exn + json"
  float :: "json \<Rightarrow> exn + pyfloat"
  str :: "json \<Rightarrow> string"
  stdout :: "string \<Rightarrow> string option"

text \<open>
  \<open>print(t)\<close>. A string is the list of its code points, those below 256; the ones below
  128 are ASCII, which every encoding of a stream has, so that a print of ASCII text
  raises nothing. On other text the stream decides; a \<open>UnicodeEncodeError\<close> is a
  \<open>ValueError\<close>. The result is the exception raised, if any.
\<close>

definition is_ascii :: "string \<Rightarrow> bool" where
  "is_ascii t = (\<forall>c \<in> set t. (of_char c :: nat) < 128)"

definition py_print :: "('img, 'arr) env \<Rightarrow> string \<Rightarrow> exn option" where
  "py_print env t =
     (if is_ascii t then None
      else (case stdout env t of None \<Rightarrow> None | Some m \<Rightarrow> Some (ValueError m)))"

definition UPLOAD_FOLDER :: string where
  "UPLOAD_FOLDER = ''static/uploads''"

section \<open>predict\<close>

text \<open>
  The prints of lines 51, 73, 95 and 123 write fixed ASCII text, a fixed label or a
  number, and so raise nothing; they are left out. The prints of lines 80, 98, 101, 104
  and 133 write text that comes from the request or from an exception.
\<close>

subsection \<open>Image inference (lines 60 to 73)\<close>

definition image_label :: "pyfloat \<Rightarrow> string" where
  "image_label prediction =
     (if float_gt prediction (Finite 0.5) then ''Non Autistic'' else ''Autistic'')"

text \<open>The result is the exception that leaves the block, or \<open>(image_result, img_path)\<close>.\<close>

definition image_stage ::
  "('img, 'arr) env \<Rightarrow> ('arr \<Rightarrow> exn + pyfloat) \<Rightarrow> 'img state \<Rightarrow> 'img request
     \<Rightarrow> (exn + string option \<times> string option) \<times> 'img state" where
  "image_stage env m st req =
     (case files_image req of
        None \<Rightarrow> (Inr (None, None), st)
      | Some img_file \<Rightarrow>
          (if filename img_file = [] then (Inr (None, None), st)
           else
             (let fname = secure_filename env (filename img_file);
                  img_path = path_join UPLOAD_FOLDER fname;
                  st1 = st\<lparr>calls := calls st @ [Save img_path]\<rparr>
              in (case save env img_path (content img_file) of
                    Some e \<Rightarrow> (Inl e, st1)
                  | None \<Rightarrow>
                      (let st2 = st1\<lparr>files := (files st1)(img_path \<mapsto> content img_file),
                                     calls := calls st1 @ [Preprocess img_path]\<rparr>
                       in (case preprocess_image env (files st2) img_path of
                             Inl e \<Rightarrow> (Inl e, st2)
                           | Inr img_array \<Rightarrow>
                               (let st3 = st2\<lparr>calls := calls st2 @ [Predict]\<rparr>
                                in (case m img_array of
                                      Inl e \<Rightarrow> (Inl e, st3)
                                    | Inr prediction \<Rightarrow>
                                        (Inr (Some (image_label prediction), Some img_path),
                                         st3)))))))))"

subsection \<open>The outer except clause (lines 132 to 134)\<close>

text \<open>When its own print raises, the exception leaves \<open>predict\<close>.\<close>

definition outer_except :: "('img, 'arr) env \<Rightarrow> exn \<Rightarrow> response" where
  "outer_except env e =
     (case py_print env (''An unexpected error occurred during prediction: '' @ str_exn e) of
        Some e' \<Rightarrow> Unhandled e'
      | None \<Rightarrow> Failure 500 (''An unexpected server error occurred: '' @ str_exn e))"

subsection \<open>Biomedical heuristic (lines 76 to 105)\<close>

text \<open>\<open>s = params.get(k, '')\<close> followed by \<open>float(s) if s != '' else 0.0\<close>.\<close>

definition field :: "('img, 'arr) env \<Rightarrow> json \<Rightarrow> string \<Rightarrow> exn + pyfloat" where
  "field env biomedical_params k =
     (case py_get biomedical_params k (JStr []) of
        Inl e \<Rightarrow> Inl e
      | Inr s \<Rightarrow> if ne_empty_str s then float env s else Inr (Finite 0))"

definition biomedical_rule :: "('img, 'arr) env \<Rightarrow> json \<Rightarrow> exn + string" where
  "biomedical_rule env biomedical_params =
     (case field env biomedical_params ''eeg'' of
        Inl e \<Rightarrow> Inl e
      | Inr eeg_score \<Rightarrow>
     (case field env biomedical_params ''heartRate'' of
        Inl e \<Rightarrow> Inl e
      | Inr heart_rate \<Rightarrow>
     (case field env biomedical_params ''cholesterol'' of
        Inl e \<Rightarrow> Inl e
      | Inr cholesterol \<Rightarrow>
          Inr (if float_gt eeg_score (Finite 7) \<and> float_lt heart_rate (Finite 70)
               then ''Potential Autism Risk (based on biomedical data)''
               else ''Low Autism Risk (based on biomedical data)''))))"

text \<open>The body of the inner \<open>try\<close> (lines 79 to 95): the value is \<open>biomedical_result\<close>.\<close>

definition biomedical_try :: "('img, 'arr) env \<Rightarrow> string \<Rightarrow> exn + string" where
  "biomedical_try env biomedical_data_str =
     (case json_loads env biomedical_data_str of
        Inl e \<Rightarrow> Inl e
      | Inr biomedical_params \<Rightarrow>
          (case py_print env (''Received biomedical data: '' @ str env biomedical_params) of
             Some e \<Rightarrow> Inl e
           | None \<Rightarrow> biomedical_rule env biomedical_params))"

text \<open>The three \<open>except\<close> clauses of the inner \<open>try\<close>, in their order: the text each
  prints (lines 98, 101, 104) and the response each returns (lines 99, 102, 105).\<close>

fun except_text :: "string \<Rightarrow> exn \<Rightarrow> string" where
  "except_text biomedical_data_str (JSONDecodeError m) =
     ''JSONDecodeError: Invalid JSON format for biomedical data: '' @ biomedical_data_str"
| "except_text biomedical_data_str (ValueError m) =
     ''ValueError: Could not convert biomedical data to number: '' @ m"
| "except_text biomedical_data_str (Exception m) =
     ''Error processing biomedical data: '' @ m"

fun biomedical_except :: "exn \<Rightarrow> response" where
  "biomedical_except (JSONDecodeError m) =
     Failure 400 ''Invalid JSON format for biomedical data. Please check your inputs.''"
| "biomedical_except (ValueError m) =
     Failure 400 (''Invalid biomedical data format. Please ensure numerical inputs are numbers: '' @ m)"
| "biomedical_except (Exception m) =
     Failure 400 (''Error processing biomedical data: '' @ m)"

text \<open>
  The result is \<open>biomedical_result\<close>, or the response with which \<open>predict\<close> returns
  early: that of the except clause of the inner \<open>try\<close> or, when the print of that clause
  raises, that of the outer except clause, which catches the exception.
\<close>

definition biomedical_stage ::
  "('img, 'arr) env \<Rightarrow> 'img state \<Rightarrow> 'img request \<Rightarrow> (response + string option) \<times> 'img state" where
  "biomedical_stage env st req =
     (case form_biomedicalData req of
        None \<Rightarrow> (Inr None, st)
      | Some biomedical_data_str \<Rightarrow>
          (if biomedical_data_str = [] then (Inr None, st)
           else
             (let st1 = st\<lparr>calls := calls st @ [JsonLoads biomedical_data_str]\<rparr>
              in (case biomedical_try env biomedical_data_str of
                    Inr biomedical_result \<Rightarrow> (Inr (Some biomedical_result), st1)
                  | Inl e \<Rightarrow>
                      (case py_print env (except_text biomedical_data_str e) of
                         None \<Rightarrow> (Inl (biomedical_except e), st1)
                       | Some e' \<Rightarrow> (Inl (outer_except env e'), st1))))))"

subsection \<open>Fusion (lines 108 to 121)\<close>

text \<open>Truth value of a variable that holds \<open>None\<close> or a string.\<close>

definition truthy :: "string option \<Rightarrow> bool" where
  "truthy r = (case r of None \<Rightarrow> False | Some s \<Rightarrow> s \<noteq> [])"

text \<open>\<open>needle in r\<close>; the code evaluates it only where \<open>r\<close> is a string.\<close>

definition py_in :: "string \<Rightarrow> string option \<Rightarrow> bool" where
  "py_in needle r = (case r of None \<Rightarrow> False | Some s \<Rightarrow> sublist needle s)"

text \<open>\<open>{r}\<close> inside an f-string.\<close>

definition fmt :: "string option \<Rightarrow> string" where
  "fmt r = (case r of None \<Rightarrow> ''None'' | Some s \<Rightarrow> s)"

definition fusion :: "string option \<Rightarrow> string option \<Rightarrow> string" where
  "fusion image_result biomedical_result =
     (let final_prediction = ''Unable to determine''
      in if truthy image_result \<and> truthy biomedical_result then
           (if image_result = Some ''Autistic'' \<and> py_in ''Autism Risk'' biomedical_result
              then ''Highly Suggestive of Autism''
            else if image_result = Some ''Autistic'' \<or> py_in ''Autism Risk'' biomedical_result
              then ''Suggestive of Autism (consider more tests)''
            else ''Not Autistic'')
         else if truthy image_result then ''Image Prediction: '' @ fmt image_result
         else if truthy biomedical_result then ''Biomedical Prediction: '' @ fmt biomedical_result
         else ''No data provided for prediction.'')"

subsection \<open>The handler (lines 45 to 134)\<close>

definition predict ::
  "('img, 'arr) env \<Rightarrow> 'img state \<Rightarrow> 'img request \<Rightarrow> response \<times> 'img state" where
  "predict env st req =
     (case model env of
        None \<Rightarrow> (Failure 500 ''AI model not loaded on server.'', st)
      | Some m \<Rightarrow>
          (case image_stage env m st req of
             (Inl e, st1) \<Rightarrow> (outer_except env e, st1)
           | (Inr (image_result, img_path), st1) \<Rightarrow>
               (case biomedical_stage env st1 req of
                  (Inl resp, st2) \<Rightarrow> (resp, st2)
                | (Inr biomedical_result, st2) \<Rightarrow>
                    (Success
                       \<lparr>image_prediction = image_result,
                        biomedical_prediction = biomedical_result,
                        combined_prediction = fusion image_result biomedical_result,
                        image_path =
                          (case img_path of
                             None \<Rightarrow> None
                           | Some p \<Rightarrow> if p \<noteq> [] then Some (''/'' @ p) else None)\<rparr>,
                     st2))))"

section \<open>healthy\_tips (lines 136 to 149)\<close>

definition tips :: "string list" where
  "tips =
    [''**Early Intervention:** Early diagnosis and intervention can significantly improve outcomes. Therapies like Applied Behavior Analysis (ABA), speech therapy, and occupational therapy can be very beneficial.'',
     ''**Structured Environment:** Creating a predictable and structured environment can help individuals with autism feel secure and reduce anxiety. Visual schedules and clear routines are often helpful.'',
     ''**Communication Strategies:** Explore various communication methods, including verbal communication, picture exchange systems (PECS), or augmentative and alternative communication (AAC) devices, to find what works best.'',
     ''**Sensory Regulation:** Many individuals with autism have sensory sensitivities. Identifying and addressing these sensitivities through sensory diets, calming spaces, or sensory-friendly activities can improve comfort and focus.'',
     ''**Diet and Nutrition:** While there's no specific 'autism diet,' some families find that dietary interventions (e.g., gluten-free, casein-free diets) can help with certain symptoms. Consult with a healthcare professional before making significant dietary changes.'',
     ''**Physical Activity:** Regular physical activity can help with motor skills, sensory integration, and overall well-being. Activities like swimming, yoga, or martial arts can be particularly beneficial.'',
     ''**Support Networks:** Connect with other families, support groups, and organizations dedicated to autism. Sharing experiences and resources can be invaluable.'',
     ''**Individualized Education Programs (IEPs):** For children, an individualized education program (IEP) tailored to their specific needs can provide necessary academic and developmental support in school.'',
     ''**Self-Care for Caregivers:** Caring for an individual with autism can be demanding. Prioritizing self-care, seeking respite, and maintaining personal well-being are crucial for caregivers.'']"

text \<open>The handler takes no argument; the request it could read from Flask's global is made
  a parameter, which the body does not use. The response is the \<open>tips\<close> field of the body.\<close>

definition healthy_tips :: "'img request \<Rightarrow> string list" where
  "healthy_tips req = tips"

section \<open>The reading of a biomedical field, as the specification words it\<close>

text \<open>
  Section 4.3 of the specification: each missing or empty value defaults to 0.0, each other
  value must convert to a float. \<open>spec_reading env d k x\<close> says that the field \<open>k\<close> of the
  decoded object \<open>d\<close> reads as the float \<open>x\<close> in that sense.
\<close>

definition spec_reading ::
  "('img, 'arr) env \<Rightarrow> (string \<Rightarrow> json option) \<Rightarrow> string \<Rightarrow> pyfloat \<Rightarrow> bool" where
  "spec_reading env d k x =
     (case d k of
        None \<Rightarrow> x = Finite 0
      | Some v \<Rightarrow> if v = JStr [] then x = Finite 0 else float env v = Inr x)"

section \<open>A sample server\<close>

text \<open>
  Collaborators tabulated at the inputs of the examples. Uploads and tensors are named by
  strings. The model scores the tensor of \<open>face A\<close> 0.2, that of \<open>face B\<close> 0.5 and any
  other 0.9; a file with the content \<open>not an image\<close> does not decode. \<open>sample_json_loads\<close>
  knows six documents, the last being the JSON string of the one code point U+00E9, and
  answers every other string as \<open>json.loads\<close> answers \<open>{eeg: 5}\<close>; \<open>sample_float\<close> converts the strings \<open>8\<close> and \<open>60\<close>, rejects every
  other string with a \<open>ValueError\<close> and every other value with a \<open>TypeError\<close>.
\<close>

definition quoted :: "string \<Rightarrow> string" where
  "quoted s = [CHR 0x22] @ s @ [CHR 0x22]"

text \<open>The document with the fields eeg 8, heartRate 60 and an empty cholesterol.\<close>

definition risk_json :: string where
  "risk_json =
     ''{'' @ quoted ''eeg'' @ '': '' @ quoted ''8'' @ '', '' @
     quoted ''heartRate'' @ '': '' @ quoted ''60'' @ '', '' @
     quoted ''cholesterol'' @ '': '' @ quoted [] @ ''}''"

text \<open>The document with the single field eeg abc.\<close>

definition abc_json :: string where
  "abc_json = ''{'' @ quoted ''eeg'' @ '': '' @ quoted ''abc'' @ ''}''"

definition sample_json_loads :: "string \<Rightarrow> exn + json" where
  "sample_json_loads s =
     (if s = risk_json then
        Inr (JDict [''eeg'' \<mapsto> JStr ''8'', ''heartRate'' \<mapsto> JStr ''60'',
                    ''cholesterol'' \<mapsto> JStr []])
      else if s = abc_json then Inr (JDict [''eeg'' \<mapsto> JStr ''abc''])
      else if s = ''{}'' then Inr (JDict Map.empty)
      else if s = ''5'' then Inr (JInt 5)
      else if s = ''[1,2]'' then Inr (JList [JInt 1, JInt 2])
      else if s = quoted [CHR 0xE9] then Inr (JStr [CHR 0xE9])
      else Inl (JSONDecodeError
             ''Expecting property name enclosed in double quotes: line 1 column 2 (char 1)''))"

definition sample_float :: "json \<Rightarrow> exn + pyfloat" where
  "sample_float v =
     (case v of
        JStr s \<Rightarrow>
          if s = ''8'' then Inr (Finite 8)
          else if s = ''60'' then Inr (Finite 60)
          else Inl (ValueError (''could not convert string to float: ''
                                 @ [CHR 0x27] @ s @ [CHR 0x27]))
      | _ \<Rightarrow> Inl (Exception ''float() argument must be a string or a real number''))"

text \<open>\<open>str\<close> at the values of the examples: a str is itself, 5 is \<open>5\<close> and the list of 1 and
  2 is \<open>[1, 2]\<close>. For an object, and for any other value, ASCII text stands in: the objects
  of the examples hold ASCII text only, and a print depends on no more than that.\<close>

definition sample_str :: "json \<Rightarrow> string" where
  "sample_str v =
     (case v of
        JStr t \<Rightarrow> t
      | JInt n \<Rightarrow> if n = 5 then ''5'' else ''...''
      | JList xs \<Rightarrow> if xs = [JInt 1, JInt 2] then ''[1, 2]'' else ''[...]''
      | JDict d \<Rightarrow> ''{...}''
      | _ \<Rightarrow> ''...'')"

text \<open>A stream that encodes everything (UTF-8), and a stream with the encoding \<open>ascii\<close>:
  the message is that of Python for text whose first non-ASCII code point stands alone,
  at a position below 100.\<close>

definition utf8_stdout :: "string \<Rightarrow> string option" where
  "utf8_stdout t = None"

definition hex_digit :: "nat \<Rightarrow> char" where
  "hex_digit n = ''0123456789abcdef'' ! n"

definition decimal :: "nat \<Rightarrow> string" where
  "decimal n = (if n < 10 then [hex_digit n] else [hex_digit (n div 10), hex_digit (n mod 10)])"

definition ascii_stdout :: "string \<Rightarrow> string option" where
  "ascii_stdout t =
     (case dropWhile (\<lambda>c. (of_char c :: nat) < 128) t of
        [] \<Rightarrow> None
      | c # cs \<Rightarrow>
          Some ([CHR 0x27] @ ''ascii'' @ [CHR 0x27] @ '' codec can'' @ [CHR 0x27]
                @ ''t encode character '' @ [CHR 0x27, CHR 0x5C] @ ''x''
                @ [hex_digit (of_char c div 16), hex_digit (of_char c mod 16)] @ [CHR 0x27]
                @ '' in position ''
                @ decimal (length (takeWhile (\<lambda>c. (of_char c :: nat) < 128) t))
                @ '': ordinal not in range(128)''))"

definition sample_model :: "string \<Rightarrow> exn + pyfloat" where
  "sample_model img_array =
     (if img_array = ''face A'' then Inr (Finite 0.2)
      else if img_array = ''face B'' then Inr (Finite 0.5)
      else Inr (Finite 0.9))"

definition sample_preprocess :: "(string \<Rightarrow> string option) \<Rightarrow> string \<Rightarrow> exn + string" where
  "sample_preprocess fs img_path =
     (case fs img_path of
        None \<Rightarrow> Inl (Exception ''No such file or directory'')
      | Some c \<Rightarrow>
          if c = ''not an image'' then Inl (Exception ''cannot identify image file'')
          else Inr c)"

definition sample_env :: "(string, string) env" where
  "sample_env =
     \<lparr>model = Some sample_model,
      secure_filename = (\<lambda>name. name),
      save = (\<lambda>img_path c. None),
      preprocess_image = sample_preprocess,
      json_loads = sample_json_loads,
      float = sample_float,
      str = sample_str,
      stdout = utf8_stdout\<rparr>"

text \<open>The same server after \<open>load_model\<close> failed at startup.\<close>

definition no_model_env :: "(string, string) env" where
  "no_model_env = sample_env\<lparr>model := None\<rparr>"

text \<open>The same server started with an ASCII standard output.\<close>

definition ascii_env :: "(string, string) env" where
  "ascii_env = sample_env\<lparr>stdout := ascii_stdout\<rparr>"

text \<open>Malformed JSON with one non-ASCII code point, U+00E9.\<close>

definition latin1_malformed :: string where
  "latin1_malformed = ''{eeg: '' @ [CHR 0xE9] @ ''}''"

definition empty_state :: "string state" where
  "empty_state = \<lparr>files = Map.empty, calls = []\<rparr>"

definition sample_request :: "string \<Rightarrow> string \<Rightarrow> string \<Rightarrow> string request" where
  "sample_request name c biomedical_data_str =
     \<lparr>files_image = Some \<lparr>filename = name, content = c\<rparr>,
      form_biomedicalData = Some biomedical_data_str\<rparr>"

text \<open>Three further requests: an image alone, biomedical data alone, and neither.\<close>

definition image_only_request :: "string request" where
  "image_only_request =
     \<lparr>files_image = Some \<lparr>filename = ''a.jpg'', content = ''face A''\<rparr>,
      form_biomedicalData = None\<rparr>"

definition biomedical_only_request :: "string \<Rightarrow> string request" where
  "biomedical_only_request biomedical_data_str =
     \<lparr>files_image = None, form_biomedicalData = Some biomedical_data_str\<rparr>"

definition empty_request :: "string request" where
  "empty_request = \<lparr>files_image = None, form_biomedicalData = None\<rparr>"

section \<open>Facts about the stages\<close>

lemmas sample_defs = sample_env_def no_model_env_def empty_state_def sample_request_def
  image_only_request_def biomedical_only_request_def empty_request_def
  sample_model_def sample_preprocess_def sample_float_def sample_json_loads_def
  sample_str_def risk_json_def abc_json_def quoted_def latin1_malformed_def

lemmas stage_defs = image_stage_def biomedical_stage_def biomedical_try_def biomedical_rule_def
  outer_except_def field_def image_label_def path_join_def UPLOAD_FOLDER_def float_lt_def Let_def

lemmas ascii_defs = ascii_env_def ascii_stdout_def hex_digit_def decimal_def is_ascii_def

lemma py_print_utf8:
  assumes "stdout env = utf8_stdout"
  shows "py_print env t = None"
  using assms by (simp add: py_print_def utf8_stdout_def)

lemma py_print_sample: "py_print sample_env t = None"
  by (simp add: py_print_utf8 sample_env_def)

lemma py_print_ascii:
  assumes "is_ascii t"
  shows "py_print env t = None"
  using assms by (simp add: py_print_def)

lemma outer_except_not_Success: "outer_except env e \<noteq> Success r"
  by (simp add: outer_except_def split: option.splits)

lemmas fusion_defs = fusion_def truthy_def py_in_def fmt_def Let_def

lemma risk_contains: "sublist ''Autism Risk'' ''Potential Autism Risk (based on biomedical data)''"
  by code_simp

lemma low_contains: "sublist ''Autism Risk'' ''Low Autism Risk (based on biomedical data)''"
  by code_simp


lemma biomedical_except_not_Success: "biomedical_except e \<noteq> Success r"
  by (cases e) simp_all

lemma biomedical_stage_Inl:
  assumes "biomedical_stage env st req = (Inl resp, st')"
  shows "resp \<noteq> Success r"
  using assms outer_except_not_Success biomedical_except_not_Success
  by (auto simp: biomedical_stage_def Let_def split: option.splits if_splits sum.splits)

lemma biomedical_rule_label:
  assumes "biomedical_rule env v = Inr b"
  shows "b = ''Potential Autism Risk (based on biomedical data)''
       \<or> b = ''Low Autism Risk (based on biomedical data)''"
  using assms by (auto simp: biomedical_rule_def split: sum.splits if_splits)

lemma biomedical_stage_label:
  assumes "biomedical_stage env st req = (Inr (Some b), st')"
  shows "b = ''Potential Autism Risk (based on biomedical data)''
       \<or> b = ''Low Autism Risk (based on biomedical data)''"
  using assms biomedical_rule_label
  by (auto simp: biomedical_stage_def biomedical_try_def Let_def
        split: option.splits if_splits sum.splits)

lemma image_stage_label:
  assumes "image_stage env m st req = (Inr (Some i, p), st1)"
  shows "i = ''Autistic'' \<or> i = ''Non Autistic''"
  using assms
  by (auto simp: image_stage_def image_label_def Let_def split: option.splits if_splits sum.splits)

lemma predict_Success:
  assumes "predict env st req = (Success r, st')"
  shows "\<exists>m p st1. model env = Some m
           \<and> image_stage env m st req = (Inr (image_prediction r, p), st1)
           \<and> biomedical_stage env st1 req = (Inr (biomedical_prediction r), st')
           \<and> combined_prediction r = fusion (image_prediction r) (biomedical_prediction r)"
proof (cases "model env")
  case None
  with assms show ?thesis by (simp add: predict_def)
next
  case (Some m)
  obtain ir st1 where i: "image_stage env m st req = (ir, st1)" by (cases "image_stage env m st req")
  show ?thesis
  proof (cases ir)
    case (Inl e)
    with assms Some i outer_except_not_Success [of env e r] show ?thesis
      by (simp add: predict_def)
  next
    case (Inr ip)
    obtain image_result p where ip: "ip = (image_result, p)" by (cases ip)
    obtain br st2 where b: "biomedical_stage env st1 req = (br, st2)"
      by (cases "biomedical_stage env st1 req")
    show ?thesis
    proof (cases br)
      case (Inl resp)
      with b biomedical_stage_Inl have "resp \<noteq> Success r" by blast
      with assms Some i Inr ip b Inl show ?thesis by (simp add: predict_def)
    next
      case (Inr biomedical_result)
      with assms Some i \<open>ir = Inr ip\<close> ip b show ?thesis by (auto simp: predict_def)
    qed
  qed
qed

lemma ne_empty_str_iff: "ne_empty_str v = (v \<noteq> JStr [])"
  by (cases v) auto

lemma field_dict:
  "field env (JDict d) k =
     (case d k of
        None \<Rightarrow> Inr (Finite 0)
      | Some v \<Rightarrow> if v = JStr [] then Inr (Finite 0) else float env v)"
  by (simp add: field_def ne_empty_str_iff split: option.splits)

lemma eval_image_only:
  "predict sample_env empty_state image_only_request =
     (Success \<lparr>image_prediction = Some ''Autistic'', biomedical_prediction = None,
               combined_prediction = ''Image Prediction: Autistic'',
               image_path = Some ''/static/uploads/a.jpg''\<rparr>,
      \<lparr>files = [''static/uploads/a.jpg'' \<mapsto> ''face A''],
       calls = [Save ''static/uploads/a.jpg'', Preprocess ''static/uploads/a.jpg'', Predict]\<rparr>)"
  by (simp add: predict_def stage_defs fusion_defs py_print_utf8 sample_defs)

lemma eval_biomedical_only:
  "predict sample_env empty_state (biomedical_only_request ''{}'') =
     (Success \<lparr>image_prediction = None,
               biomedical_prediction = Some ''Low Autism Risk (based on biomedical data)'',
               combined_prediction =
                 ''Biomedical Prediction: Low Autism Risk (based on biomedical data)'',
               image_path = None\<rparr>,
      \<lparr>files = Map.empty, calls = [JsonLoads ''{}'']\<rparr>)"
  by (simp add: predict_def stage_defs fusion_defs py_print_utf8 sample_defs)

lemma eval_empty:
  "predict sample_env empty_state empty_request =
     (Success \<lparr>image_prediction = None, biomedical_prediction = None,
               combined_prediction = ''No data provided for prediction.'',
               image_path = None\<rparr>,
      empty_state)"
  by (simp add: predict_def stage_defs fusion_defs py_print_utf8 sample_defs)


lemma predict_biomedical_raises:
  assumes "model env = Some m"
    and "image_stage env m st req = (Inr ir, st1)"
    and "biomedical_stage env st1 req = (Inl resp, st2)"
  shows "predict env st req = (resp, st2)"
  using assms by (cases ir) (simp add: predict_def)

lemma eval_face_A: 
  "image_stage sample_env sample_model empty_state (sample_request ''a.jpg'' ''face A'' s) =
     (Inr (Some ''Autistic'', Some ''static/uploads/a.jpg''),
      \<lparr>files = [''static/uploads/a.jpg'' \<mapsto> ''face A''],
       calls = [Save ''static/uploads/a.jpg'', Preprocess ''static/uploads/a.jpg'', Predict]\<rparr>)"
  by (simp add: stage_defs sample_defs)

lemma biomedical_stage_raises:
  assumes "form_biomedicalData req = Some s" and "s \<noteq> []"
    and "biomedical_try env s = Inl e"
    and "py_print env (except_text s e) = None"
  shows "biomedical_stage env st req =
           (Inl (biomedical_except e), st\<lparr>calls := calls st @ [JsonLoads s]\<rparr>)"
  using assms by (simp add: biomedical_stage_def Let_def)

lemma is_ascii_append: "is_ascii (a @ b) = (is_ascii a \<and> is_ascii b)"
  by (auto simp: is_ascii_def)

lemma is_ascii_type_name: "is_ascii (type_name v)"
  by (cases v) (simp_all add: is_ascii_def)

lemma image_stage_form:
  "image_stage env m st (req\<lparr>form_biomedicalData := x\<rparr>) = image_stage env m st req"
  by (simp add: image_stage_def)

lemma biomedical_stage_files:
  "biomedical_stage env st (req\<lparr>files_image := x\<rparr>) = biomedical_stage env st req"
  by (simp add: biomedical_stage_def)

lemma image_stage_empty_filename:
  assumes "files_image req = Some img_file" and "filename img_file = []"
  shows "image_stage env m st req = image_stage env m st (req\<lparr>files_image := None\<rparr>)"
  using assms by (simp add: image_stage_def)

lemma biomedical_stage_empty_str:
  assumes "form_biomedicalData req = Some []"
  shows "biomedical_stage env st req = biomedical_stage env st (req\<lparr>form_biomedicalData := None\<rparr>)"
  using assms by (simp add: biomedical_stage_def)

lemma is_ascii_Nil: "is_ascii []"
  by (simp add: is_ascii_def)

lemma is_ascii_Cons: "is_ascii (c # t) = ((of_char c :: nat) < 128 \<and> is_ascii t)"
  by (simp add: is_ascii_def)


section \<open>The claims\<close>

text \<open>
  C3. Image inference labels the model's scalar \<open>Non Autistic\<close> exactly when it is strictly
  greater than 0.5 and \<open>Autistic\<close> otherwise; a scalar equal to 0.5 gives \<open>Autistic\<close>.
  Stated for a request whose image has a non-empty filename, is saved and preprocessed
  without an exception, and on whose tensor the model returns the scalar \<open>prediction\<close>.
\<close>

theorem C3_image_threshold:
  assumes "files_image req = Some img_file"
    and "filename img_file \<noteq> []"
    and "img_path = path_join UPLOAD_FOLDER (secure_filename env (filename img_file))"
    and "save env img_path (content img_file) = None"
    and "preprocess_image env ((files st)(img_path \<mapsto> content img_file)) img_path = Inr img_array"
    and "m img_array = Inr prediction"
  shows "fst (image_stage env m st req) =
           Inr (Some (if float_gt prediction (Finite 0.5) then ''Non Autistic'' else ''Autistic''),
                Some img_path)
       \<and> (prediction = Finite 0.5 \<longrightarrow>
            fst (image_stage env m st req) = Inr (Some ''Autistic'', Some img_path))
       \<and> (prediction = Finite x \<longrightarrow>
            (fst (image_stage env m st req) = Inr (Some ''Non Autistic'', Some img_path))
              = (0.5 < x))"
  using assms by (simp add: image_stage_def image_label_def Let_def)

theorem C3_image_threshold_witness:
  "files_image (sample_request ''b.jpg'' ''face B'' ''{}'')
     = Some \<lparr>filename = ''b.jpg'', content = ''face B''\<rparr>
   \<and> save sample_env ''static/uploads/b.jpg'' ''face B'' = None
   \<and> preprocess_image sample_env [''static/uploads/b.jpg'' \<mapsto> ''face B''] ''static/uploads/b.jpg''
        = Inr ''face B''
   \<and> sample_model ''face B'' = Inr (Finite 0.5)
   \<and> fst (image_stage sample_env sample_model empty_state (sample_request ''b.jpg'' ''face B'' ''{}''))
        = Inr (Some ''Autistic'', Some ''static/uploads/b.jpg'')"
  using C3_image_threshold [of "sample_request ''b.jpg'' ''face B'' ''{}''"
      "\<lparr>filename = ''b.jpg'', content = ''face B''\<rparr>" "''static/uploads/b.jpg''" sample_env
      empty_state "''face B''" sample_model "Finite 0.5" "0.5"]
  by (simp add: sample_defs path_join_def UPLOAD_FOLDER_def)

text \<open>
  C4. Fusion is a total function of its two inputs: on each of the nine combinations of an
  absent or fixed image label with an absent or fixed biomedical label it returns one of
  the combined strings of section 4.4 of the specification, and on no input at all does it
  return the initial value \<open>Unable to determine\<close>.
\<close>

theorem C4_fusion_total:
  "(\<forall>image_result \<in> {None, Some ''Autistic'', Some ''Non Autistic''}.
    \<forall>biomedical_result \<in> {None, Some ''Potential Autism Risk (based on biomedical data)'',
                              Some ''Low Autism Risk (based on biomedical data)''}.
      fusion image_result biomedical_result \<in>
        {''Highly Suggestive of Autism'',
         ''Suggestive of Autism (consider more tests)'',
         ''Not Autistic'',
         ''Image Prediction: Autistic'',
         ''Image Prediction: Non Autistic'',
         ''Biomedical Prediction: Potential Autism Risk (based on biomedical data)'',
         ''Biomedical Prediction: Low Autism Risk (based on biomedical data)'',
         ''No data provided for prediction.''})
   \<and> (\<forall>image_result biomedical_result.
         fusion image_result biomedical_result \<noteq> ''Unable to determine'')"
proof (intro conjI ballI allI)
  fix image_result biomedical_result
  show "fusion image_result biomedical_result \<noteq> ''Unable to determine''"
    by (simp add: fusion_defs split: option.splits)
next
  fix image_result :: "string option" and biomedical_result :: "string option"
  assume "image_result \<in> {None, Some ''Autistic'', Some ''Non Autistic''}"
    and "biomedical_result \<in> {None, Some ''Potential Autism Risk (based on biomedical data)'',
                              Some ''Low Autism Risk (based on biomedical data)''}"
  then consider "image_result = None" | "image_result = Some ''Autistic''"
    | "image_result = Some ''Non Autistic''" by blast
  then show "fusion image_result biomedical_result \<in>
        {''Highly Suggestive of Autism'',
         ''Suggestive of Autism (consider more tests)'',
         ''Not Autistic'',
         ''Image Prediction: Autistic'',
         ''Image Prediction: Non Autistic'',
         ''Biomedical Prediction: Potential Autism Risk (based on biomedical data)'',
         ''Biomedical Prediction: Low Autism Risk (based on biomedical data)'',
         ''No data provided for prediction.''}"
  proof cases
    case 1
    with \<open>biomedical_result \<in> _\<close> show ?thesis by (auto simp: fusion_defs)
  next
    case 2
    with \<open>biomedical_result \<in> _\<close> show ?thesis by (auto simp: fusion_defs)
  next
    case 3
    with \<open>biomedical_result \<in> _\<close> show ?thesis by (auto simp: fusion_defs)
  qed
qed

theorem C4_fusion_total_witness:
  "Some ''Non Autistic'' \<in> {None, Some ''Autistic'', Some ''Non Autistic''}
   \<and> None \<in> {None, Some ''Potential Autism Risk (based on biomedical data)'',
                Some ''Low Autism Risk (based on biomedical data)''}
   \<and> fusion (Some ''Non Autistic'') None = ''Image Prediction: Non Autistic''
   \<and> fusion (Some ''Non Autistic'') None \<noteq> ''Unable to determine''"
  using C4_fusion_total by (simp add: fusion_defs)

text \<open>
  C7. When the model failed to load, every call of \<open>predict\<close> answers status 500 with the
  error \<open>AI model not loaded on server.\<close>, whatever the request and the collaborators are,
  and leaves the state as it was: no file is saved and no collaborator is called.
\<close>

theorem C7_model_unavailable:
  assumes "model env = None"
  shows "predict env st req = (Failure 500 ''AI model not loaded on server.'', st)"
  using assms by (simp add: predict_def)

theorem C7_model_unavailable_witness:
  "model no_model_env = None
   \<and> predict no_model_env empty_state (sample_request ''a.jpg'' ''face A'' risk_json)
       = (Failure 500 ''AI model not loaded on server.'', empty_state)
   \<and> calls empty_state = []"
  using C7_model_unavailable [of no_model_env empty_state "sample_request ''a.jpg'' ''face A'' risk_json"]
  by (simp add: sample_defs)

text \<open>
  C8. \<open>healthy_tips\<close> returns the same ordered list of nine strings for every request; the
  last conjunct names the nine tips, in order, by their headings.
\<close>

theorem C8_healthy_tips_fixed:
  "healthy_tips req = healthy_tips req'
   \<and> length (healthy_tips req) = 9
   \<and> healthy_tips req = tips
   \<and> map (takeWhile (\<lambda>c. c \<noteq> CHR '':'')) (healthy_tips req) =
       [''**Early Intervention'', ''**Structured Environment'', ''**Communication Strategies'',
        ''**Sensory Regulation'', ''**Diet and Nutrition'', ''**Physical Activity'',
        ''**Support Networks'', ''**Individualized Education Programs (IEPs)'',
        ''**Self-Care for Caregivers'']"
  by (simp add: healthy_tips_def tips_def)

text \<open>
  C1. The claim: when both stages produce a label, the combined prediction follows the
  fusion table, with the low-risk label counted as not containing \<open>Autism Risk\<close>. The
  code tests \<open>'Autism Risk' in biomedical_result\<close>, and the low-risk label
  \<open>Low Autism Risk (based on biomedical data)\<close> contains that text as well. So an
  \<open>Autistic\<close> image with the low-risk label is reported \<open>Highly Suggestive of Autism\<close>,
  and a \<open>Non Autistic\<close> image with the low-risk label is reported
  \<open>Suggestive of Autism (consider more tests)\<close>; the last conjunct is a whole request
  (an image the model scores 0.9 and the biomedical document \<open>{}\<close>).
\<close>

theorem C1_low_risk_label_passes_risk_test:
  "sublist ''Autism Risk'' ''Low Autism Risk (based on biomedical data)''
   \<and> fusion (Some ''Autistic'') (Some ''Low Autism Risk (based on biomedical data)'')
        = ''Highly Suggestive of Autism''
   \<and> fusion (Some ''Non Autistic'') (Some ''Low Autism Risk (based on biomedical data)'')
        = ''Suggestive of Autism (consider more tests)''
   \<and> fst (predict sample_env empty_state (sample_request ''c.jpg'' ''face C'' ''{}''))
        = Success \<lparr>image_prediction = Some ''Non Autistic'',
                   biomedical_prediction = Some ''Low Autism Risk (based on biomedical data)'',
                   combined_prediction = ''Suggestive of Autism (consider more tests)'',
                   image_path = Some ''/static/uploads/c.jpg''\<rparr>"
  using low_contains
  by (simp add: predict_def stage_defs fusion_defs py_print_utf8 sample_defs)

text \<open>
  C2. When each of the fields \<open>eeg\<close>, \<open>heartRate\<close> and \<open>cholesterol\<close> of the decoded
  object is missing or empty (and then reads as 0.0) or converts to a float, the heuristic
  returns the risk label exactly when \<open>eeg > 7.0\<close> and \<open>heartRate < 70.0\<close>, and the
  low-risk label otherwise. The cholesterol reading does not occur in the result.
\<close>

theorem C2_biomedical_rule:
  assumes "spec_reading env d ''eeg'' eeg_score"
    and "spec_reading env d ''heartRate'' heart_rate"
    and "spec_reading env d ''cholesterol'' cholesterol"
  shows "biomedical_rule env (JDict d) =
           Inr (if float_gt eeg_score (Finite 7) \<and> float_lt heart_rate (Finite 70)
                then ''Potential Autism Risk (based on biomedical data)''
                else ''Low Autism Risk (based on biomedical data)'')
       \<and> (eeg_score = Finite e \<and> heart_rate = Finite h \<longrightarrow>
            (biomedical_rule env (JDict d)
               = Inr ''Potential Autism Risk (based on biomedical data)'')
              = (7 < e \<and> h < 70))"
proof -
  have f: "field env (JDict d) k = Inr x" if "spec_reading env d k x" for k x
    using that by (auto simp: spec_reading_def field_dict split: option.splits if_splits)
  show ?thesis
    using f [OF assms(1)] f [OF assms(2)] f [OF assms(3)]
    by (simp add: biomedical_rule_def float_lt_def)
qed

theorem C2_biomedical_rule_witness:
  "spec_reading sample_env [''eeg'' \<mapsto> JStr ''8'', ''cholesterol'' \<mapsto> JStr []] ''eeg'' (Finite 8)
   \<and> spec_reading sample_env [''eeg'' \<mapsto> JStr ''8'', ''cholesterol'' \<mapsto> JStr []] ''heartRate'' (Finite 0)
   \<and> spec_reading sample_env [''eeg'' \<mapsto> JStr ''8'', ''cholesterol'' \<mapsto> JStr []] ''cholesterol'' (Finite 0)
   \<and> biomedical_rule sample_env (JDict [''eeg'' \<mapsto> JStr ''8'', ''cholesterol'' \<mapsto> JStr []])
        = Inr ''Potential Autism Risk (based on biomedical data)''"
  using C2_biomedical_rule [of sample_env "[''eeg'' \<mapsto> JStr ''8'', ''cholesterol'' \<mapsto> JStr []]"
      "Finite 8" "Finite 0" "Finite 0" 8 0]
  by (simp add: spec_reading_def sample_defs float_lt_def)

text \<open>
  C5. In a successful response with exactly one of the two labels, the combined prediction
  is that label after \<open>Image Prediction: \<close> or \<open>Biomedical Prediction: \<close>; with neither
  label it is \<open>No data provided for prediction.\<close>. A request with neither an image nor
  biomedical data, on a server whose model is loaded, gets that response with both labels
  and the image path null, and changes nothing.
\<close>

theorem C5_single_stage_and_none:
  "(predict env st req = (Success r, st') \<and> image_prediction r = Some i
      \<and> biomedical_prediction r = None
      \<longrightarrow> combined_prediction r = ''Image Prediction: '' @ i)
   \<and> (predict env st req = (Success r, st') \<and> image_prediction r = None
      \<and> biomedical_prediction r = Some b
      \<longrightarrow> combined_prediction r = ''Biomedical Prediction: '' @ b)
   \<and> (predict env st req = (Success r, st') \<and> image_prediction r = None
      \<and> biomedical_prediction r = None
      \<longrightarrow> combined_prediction r = ''No data provided for prediction.'')
   \<and> (model env = Some m \<and> files_image req = None \<and> form_biomedicalData req = None
      \<longrightarrow> predict env st req =
            (Success \<lparr>image_prediction = None, biomedical_prediction = None,
                      combined_prediction = ''No data provided for prediction.'',
                      image_path = None\<rparr>, st))"
proof (intro conjI impI)
  assume a: "predict env st req = (Success r, st') \<and> image_prediction r = Some i
      \<and> biomedical_prediction r = None"
  with predict_Success [of env st req r st'] image_stage_label [of env _ st req i]
  have "i = ''Autistic'' \<or> i = ''Non Autistic''"
    and "combined_prediction r = fusion (Some i) None" by auto
  then show "combined_prediction r = ''Image Prediction: '' @ i"
    by (auto simp: fusion_defs)
next
  assume a: "predict env st req = (Success r, st') \<and> image_prediction r = None
      \<and> biomedical_prediction r = Some b"
  with predict_Success [of env st req r st'] biomedical_stage_label [of env _ req b st']
  have "b = ''Potential Autism Risk (based on biomedical data)''
       \<or> b = ''Low Autism Risk (based on biomedical data)''"
    and "combined_prediction r = fusion None (Some b)" by auto
  then show "combined_prediction r = ''Biomedical Prediction: '' @ b"
    by (auto simp: fusion_defs)
next
  assume a: "predict env st req = (Success r, st') \<and> image_prediction r = None
      \<and> biomedical_prediction r = None"
  with predict_Success [of env st req r st']
  have "combined_prediction r = fusion None None" by auto
  then show "combined_prediction r = ''No data provided for prediction.''"
    by (simp add: fusion_defs)
next
  assume "model env = Some m \<and> files_image req = None \<and> form_biomedicalData req = None"
  then show "predict env st req =
            (Success \<lparr>image_prediction = None, biomedical_prediction = None,
                      combined_prediction = ''No data provided for prediction.'',
                      image_path = None\<rparr>, st)"
    by (simp add: predict_def image_stage_def biomedical_stage_def fusion_defs)
qed

theorem C5_single_stage_and_none_witness:
  "predict sample_env empty_state image_only_request =
     (Success \<lparr>image_prediction = Some ''Autistic'', biomedical_prediction = None,
               combined_prediction = ''Image Prediction: '' @ ''Autistic'',
               image_path = Some ''/static/uploads/a.jpg''\<rparr>,
      \<lparr>files = [''static/uploads/a.jpg'' \<mapsto> ''face A''],
       calls = [Save ''static/uploads/a.jpg'', Preprocess ''static/uploads/a.jpg'', Predict]\<rparr>)
   \<and> predict sample_env empty_state (biomedical_only_request ''{}'') =
     (Success \<lparr>image_prediction = None,
               biomedical_prediction = Some ''Low Autism Risk (based on biomedical data)'',
               combined_prediction =
                 ''Biomedical Prediction: '' @ ''Low Autism Risk (based on biomedical data)'',
               image_path = None\<rparr>,
      \<lparr>files = Map.empty, calls = [JsonLoads ''{}'']\<rparr>)
   \<and> model sample_env = Some sample_model
   \<and> files_image empty_request = None \<and> form_biomedicalData empty_request = None
   \<and> predict sample_env empty_state empty_request =
       (Success \<lparr>image_prediction = None, biomedical_prediction = None,
                 combined_prediction = ''No data provided for prediction.'',
                 image_path = None\<rparr>, empty_state)"
proof -
  have m: "model sample_env = Some sample_model
      \<and> files_image empty_request = None \<and> form_biomedicalData empty_request = None"
    by (simp add: sample_env_def empty_request_def)
  with C5_single_stage_and_none [of sample_env empty_state empty_request _ _ _ _ sample_model]
  have "predict sample_env empty_state empty_request =
       (Success \<lparr>image_prediction = None, biomedical_prediction = None,
                 combined_prediction = ''No data provided for prediction.'',
                 image_path = None\<rparr>, empty_state)"
    by blast
  with m eval_image_only eval_biomedical_only show ?thesis by simp
qed




text \<open>
  C9, as stated, fails: biomedical data that is valid JSON but not an object is answered
  with status 500 when the uploaded image does not decode; and it is not always the
  catch-all handler that answers. On a server with an ASCII standard output, the JSON
  string of the code point U+00E9 makes the print of line 80 raise a
  \<open>UnicodeEncodeError\<close>, a \<open>ValueError\<close>, before \<open>get\<close> is looked up, and the
  \<open>ValueError\<close> handler answers (with status 400).
\<close>

theorem C9_counterexample:
  "json_loads sample_env ''[1,2]'' = Inr (JList [JInt 1, JInt 2])
   \<and> fst (predict sample_env empty_state (sample_request ''a.jpg'' ''not an image'' ''[1,2]''))
       = Failure 500 ''An unexpected server error occurred: cannot identify image file''
   \<and> json_loads ascii_env (quoted [CHR 0xE9]) = Inr (JStr [CHR 0xE9])
   \<and> fst (predict ascii_env empty_state (biomedical_only_request (quoted [CHR 0xE9])))
       = Failure 400
           (''Invalid biomedical data format. Please ensure numerical inputs are numbers: ''
            @ [CHR 0x27] @ ''ascii' codec can't encode character '' @ [CHR 0x27, CHR 0x5C]
            @ ''xe9' in position 26: ordinal not in range(128)'')"
proof -
  have a: "fst (predict sample_env empty_state (sample_request ''a.jpg'' ''not an image'' ''[1,2]''))
       = Failure 500 ''An unexpected server error occurred: cannot identify image file''"
    by (simp add: predict_def stage_defs py_print_utf8 sample_defs)
  have b: "fst (predict ascii_env empty_state (biomedical_only_request (quoted [CHR 0xE9])))
       = Failure 400
           (''Invalid biomedical data format. Please ensure numerical inputs are numbers: ''
            @ [CHR 0x27] @ ''ascii' codec can't encode character '' @ [CHR 0x27, CHR 0x5C]
            @ ''xe9' in position 26: ordinal not in range(128)'')"
    by (simp add: predict_def stage_defs py_print_def ascii_defs sample_defs)
  from a b show ?thesis by (simp add: ascii_env_def sample_defs)
qed

text \<open>
  C9, amended. When the model is loaded and the image stage raised nothing, a non-empty
  \<open>biomedicalData\<close> that decodes to anything but an object is answered with status 400:
  by the catch-all handler, with the \<open>AttributeError\<close> of the missing \<open>get\<close> method, when
  the print of the decoded value (line 80) raises nothing; and by the \<open>ValueError\<close>
  handler, with the message of the \<open>UnicodeEncodeError\<close>, when that print raises one and
  the handler's own print raises nothing.
\<close>

theorem C9_non_object_json_400:
  assumes "model env = Some m"
    and "image_stage env m st req = (Inr ir, st1)"
    and "form_biomedicalData req = Some s"
    and "s \<noteq> []"
    and "json_loads env s = Inr v"
    and "\<forall>d. v \<noteq> JDict d"
  shows "(py_print env (''Received biomedical data: '' @ str env v) = None \<longrightarrow>
            predict env st req =
              (Failure 400
                 (''Error processing biomedical data: '' @ [CHR 0x27] @ type_name v @ [CHR 0x27]
                    @ '' object has no attribute '' @ [CHR 0x27] @ ''get'' @ [CHR 0x27]),
               st1\<lparr>calls := calls st1 @ [JsonLoads s]\<rparr>))
       \<and> (\<not> is_ascii (''Received biomedical data: '' @ str env v)
            \<and> stdout env (''Received biomedical data: '' @ str env v) = Some u
            \<and> py_print env (''ValueError: Could not convert biomedical data to number: '' @ u)
                = None \<longrightarrow>
            predict env st req =
              (Failure 400
                 (''Invalid biomedical data format. Please ensure numerical inputs are numbers: ''
                    @ u),
               st1\<lparr>calls := calls st1 @ [JsonLoads s]\<rparr>))"
proof (intro conjI impI)
  let ?m = "[CHR 0x27] @ type_name v @ [CHR 0x27] @ '' object has no attribute ''
                      @ [CHR 0x27] @ ''get'' @ [CHR 0x27]"
  assume p: "py_print env (''Received biomedical data: '' @ str env v) = None"
  from assms(6) have "field env v ''eeg'' = Inl (Exception ?m)"
    by (cases v) (simp_all add: field_def)
  then have "biomedical_rule env v = Inl (Exception ?m)"
    by (simp add: biomedical_rule_def)
  with assms(5) p have t: "biomedical_try env s = Inl (Exception ?m)"
    by (simp add: biomedical_try_def)
  have "is_ascii (except_text s (Exception ?m))"
    by (simp add: is_ascii_Cons is_ascii_Nil is_ascii_append is_ascii_type_name)
  then have "py_print env (except_text s (Exception ?m)) = None"
    by (rule py_print_ascii)
  from biomedical_stage_raises [OF assms(3,4) t this]
  have "biomedical_stage env st1 req =
      (Inl (biomedical_except (Exception ?m)), st1\<lparr>calls := calls st1 @ [JsonLoads s]\<rparr>)" .
  from predict_biomedical_raises [OF assms(1,2) this]
  show "predict env st req =
              (Failure 400
                 (''Error processing biomedical data: '' @ [CHR 0x27] @ type_name v @ [CHR 0x27]
                    @ '' object has no attribute '' @ [CHR 0x27] @ ''get'' @ [CHR 0x27]),
               st1\<lparr>calls := calls st1 @ [JsonLoads s]\<rparr>)"
    by simp
next
  assume a: "\<not> is_ascii (''Received biomedical data: '' @ str env v)
            \<and> stdout env (''Received biomedical data: '' @ str env v) = Some u
            \<and> py_print env (''ValueError: Could not convert biomedical data to number: '' @ u)
                = None"
  then have "py_print env (''Received biomedical data: '' @ str env v) = Some (ValueError u)"
    by (simp add: py_print_def)
  with assms(5) have t: "biomedical_try env s = Inl (ValueError u)"
    by (simp add: biomedical_try_def)
  from a have "py_print env (except_text s (ValueError u)) = None" by simp
  from biomedical_stage_raises [OF assms(3,4) t this]
  have "biomedical_stage env st1 req =
      (Inl (biomedical_except (ValueError u)), st1\<lparr>calls := calls st1 @ [JsonLoads s]\<rparr>)" .
  from predict_biomedical_raises [OF assms(1,2) this]
  show "predict env st req =
              (Failure 400
                 (''Invalid biomedical data format. Please ensure numerical inputs are numbers: ''
                    @ u),
               st1\<lparr>calls := calls st1 @ [JsonLoads s]\<rparr>)"
    by simp
qed

theorem C9_non_object_json_400_witness:
  "model sample_env = Some sample_model
   \<and> json_loads sample_env ''5'' = Inr (JInt 5)
   \<and> (\<forall>d. JInt 5 \<noteq> JDict d)
   \<and> py_print sample_env (''Received biomedical data: '' @ str sample_env (JInt 5)) = None
   \<and> fst (predict sample_env empty_state (sample_request ''a.jpg'' ''face A'' ''5'')) =
       Failure 400 (''Error processing biomedical data: '' @ [CHR 0x27] @ ''int'' @ [CHR 0x27]
                     @ '' object has no attribute '' @ [CHR 0x27] @ ''get'' @ [CHR 0x27])
   \<and> model ascii_env = Some sample_model
   \<and> json_loads ascii_env (quoted [CHR 0xE9]) = Inr (JStr [CHR 0xE9])
   \<and> \<not> is_ascii (''Received biomedical data: '' @ str ascii_env (JStr [CHR 0xE9]))
   \<and> stdout ascii_env (''Received biomedical data: '' @ str ascii_env (JStr [CHR 0xE9])) =
       Some ([CHR 0x27] @ ''ascii' codec can't encode character '' @ [CHR 0x27, CHR 0x5C]
             @ ''xe9' in position 26: ordinal not in range(128)'')
   \<and> fst (predict ascii_env empty_state (biomedical_only_request (quoted [CHR 0xE9]))) =
       Failure 400
         (''Invalid biomedical data format. Please ensure numerical inputs are numbers: ''
          @ [CHR 0x27] @ ''ascii' codec can't encode character '' @ [CHR 0x27, CHR 0x5C]
          @ ''xe9' in position 26: ordinal not in range(128)'')"
proof -
  let ?u = "[CHR 0x27] @ ''ascii' codec can't encode character '' @ [CHR 0x27, CHR 0x5C]
             @ ''xe9' in position 26: ordinal not in range(128)''"
  let ?q = "quoted [CHR 0xE9]"
  have m: "model sample_env = Some sample_model" by (simp add: sample_env_def)
  have m': "model ascii_env = Some sample_model" by (simp add: ascii_env_def sample_env_def)
  have j1: "json_loads sample_env ''5'' = Inr (JInt 5)" by (simp add: sample_defs)
  have j2: "json_loads ascii_env ?q = Inr (JStr [CHR 0xE9])"
    by (simp add: ascii_env_def sample_defs)
  have r1: "form_biomedicalData (sample_request ''a.jpg'' ''face A'' ''5'') = Some ''5''"
    by (simp add: sample_request_def)
  have r2: "form_biomedicalData (biomedical_only_request ?q) = Some ?q"
    by (simp add: biomedical_only_request_def)
  have n2: "?q \<noteq> []" by (simp add: quoted_def)
  have i2: "image_stage ascii_env sample_model empty_state (biomedical_only_request ?q)
      = (Inr (None, None), empty_state)"
    by (simp add: image_stage_def biomedical_only_request_def)
  have p1: "py_print sample_env (''Received biomedical data: '' @ str sample_env (JInt 5)) = None"
    by (simp add: py_print_sample)
  have a2: "\<not> is_ascii (''Received biomedical data: '' @ str ascii_env (JStr [CHR 0xE9]))"
    by (simp add: ascii_defs sample_defs)
  have s2: "stdout ascii_env (''Received biomedical data: '' @ str ascii_env (JStr [CHR 0xE9]))
      = Some ?u"
    by (simp add: ascii_defs sample_defs)
  have h2: "py_print ascii_env (''ValueError: Could not convert biomedical data to number: '' @ ?u)
      = None"
    by (rule py_print_ascii) (simp add: is_ascii_Cons is_ascii_Nil)
  have w1: "fst (predict sample_env empty_state (sample_request ''a.jpg'' ''face A'' ''5'')) =
       Failure 400 (''Error processing biomedical data: '' @ [CHR 0x27] @ ''int'' @ [CHR 0x27]
                     @ '' object has no attribute '' @ [CHR 0x27] @ ''get'' @ [CHR 0x27])"
    using C9_non_object_json_400 [OF m eval_face_A r1 _ j1] p1 by simp
  have w2: "fst (predict ascii_env empty_state (biomedical_only_request ?q)) =
       Failure 400
         (''Invalid biomedical data format. Please ensure numerical inputs are numbers: '' @ ?u)"
    using C9_non_object_json_400 [OF m' i2 r2 n2 j2, of ?u] a2 s2 h2 by simp
  from m m' j1 j2 p1 a2 s2 w1 w2 show ?thesis by simp
qed

text \<open>
  C10. An image part with an empty filename is treated as an absent image, and an empty
  \<open>biomedicalData\<close> as absent biomedical data: the stage returns no label, raises nothing
  and leaves the state as it was, the whole response and state of \<open>predict\<close> are those
  of the request without that input, and in a successful response the label of that stage
  (and, for the image, the image path) is null.
\<close>

theorem C10_empty_inputs_as_absent:
  "(files_image req = Some img_file \<and> filename img_file = [] \<longrightarrow>
       image_stage env m st req = (Inr (None, None), st)
     \<and> predict env st req = predict env st (req\<lparr>files_image := None\<rparr>))
   \<and> (form_biomedicalData req = Some [] \<longrightarrow>
       biomedical_stage env st req = (Inr None, st)
     \<and> predict env st req = predict env st (req\<lparr>form_biomedicalData := None\<rparr>))
   \<and> (predict env st req = (Success r, st') \<and> files_image req = Some img_file
        \<and> filename img_file = [] \<longrightarrow>
       image_prediction r = None \<and> image_path r = None)
   \<and> (predict env st req = (Success r, st') \<and> form_biomedicalData req = Some [] \<longrightarrow>
       biomedical_prediction r = None)"
proof (intro conjI impI)
  assume a: "files_image req = Some img_file \<and> filename img_file = []"
  then show "image_stage env m st req = (Inr (None, None), st)"
    by (simp add: image_stage_def)
  from a have i: "image_stage env m' st req = image_stage env m' st (req\<lparr>files_image := None\<rparr>)"
    for m' by (simp add: image_stage_empty_filename)
  show "predict env st req = predict env st (req\<lparr>files_image := None\<rparr>)"
    by (simp only: predict_def biomedical_stage_files i)
next
  assume a: "form_biomedicalData req = Some []"
  then show "biomedical_stage env st req = (Inr None, st)"
    by (simp add: biomedical_stage_def)
  from a have b: "biomedical_stage env st1 req
      = biomedical_stage env st1 (req\<lparr>form_biomedicalData := None\<rparr>)"
    for st1 by (simp add: biomedical_stage_empty_str)
  show "predict env st req = predict env st (req\<lparr>form_biomedicalData := None\<rparr>)"
    by (simp only: predict_def image_stage_form b)
next
  assume a: "predict env st req = (Success r, st') \<and> files_image req = Some img_file
        \<and> filename img_file = []"
  then show "image_prediction r = None" "image_path r = None"
    by (auto simp: predict_def image_stage_def dest: biomedical_stage_Inl
          split: option.splits sum.splits prod.splits)
next
  assume a: "predict env st req = (Success r, st') \<and> form_biomedicalData req = Some []"
  with predict_Success [of env st req r st'] show "biomedical_prediction r = None"
    by (auto simp: biomedical_stage_def)
qed

theorem C10_empty_inputs_as_absent_witness:
  "files_image (sample_request [] ''face A'' []) = Some \<lparr>filename = [], content = ''face A''\<rparr>
   \<and> form_biomedicalData (sample_request [] ''face A'' []) = Some []
   \<and> image_stage sample_env sample_model empty_state (sample_request [] ''face A'' [])
       = (Inr (None, None), empty_state)
   \<and> biomedical_stage sample_env empty_state (sample_request [] ''face A'' [])
       = (Inr None, empty_state)
   \<and> predict sample_env empty_state (sample_request [] ''face A'' []) =
       (Success \<lparr>image_prediction = None, biomedical_prediction = None,
                 combined_prediction = ''No data provided for prediction.'',
                 image_path = None\<rparr>, empty_state)"
proof -
  let ?req = "sample_request [] ''face A'' []"
  let ?f = "\<lparr>filename = [], content = ''face A''\<rparr>"
  have h1: "files_image ?req = Some ?f \<and> filename ?f = []" by (simp add: sample_request_def)
  have h2: "form_biomedicalData ?req = Some []" by (simp add: sample_request_def)
  have e: "?req\<lparr>files_image := None, form_biomedicalData := None\<rparr> = empty_request"
    by (simp add: sample_request_def empty_request_def)
  note c = C10_empty_inputs_as_absent [of ?req ?f sample_env sample_model empty_state]
  note c' = C10_empty_inputs_as_absent [of "?req\<lparr>files_image := None\<rparr>" ?f sample_env sample_model empty_state]
  from c h1 have i: "image_stage sample_env sample_model empty_state ?req = (Inr (None, None), empty_state)"
    and p1: "predict sample_env empty_state ?req = predict sample_env empty_state (?req\<lparr>files_image := None\<rparr>)"
    by blast+
  from c h2 have b: "biomedical_stage sample_env empty_state ?req = (Inr None, empty_state)"
    by blast
  from c' h2 have p2: "predict sample_env empty_state (?req\<lparr>files_image := None\<rparr>)
      = predict sample_env empty_state (?req\<lparr>files_image := None, form_biomedicalData := None\<rparr>)"
    by simp
  from p1 p2 e eval_empty have "predict sample_env empty_state ?req =
       (Success \<lparr>image_prediction = None, biomedical_prediction = None,
                 combined_prediction = ''No data provided for prediction.'',
                 image_path = None\<rparr>, empty_state)"
    by simp
  with h1 h2 i b show ?thesis by simp
qed

end
